theory Spec2Isabelle
  imports Main
begin

section \<open>The BIN lookup of bin.py\<close>

text \<open>
  The module has three functions: \<open>get_country_with_bin\<close> (a cached remote lookup),
  \<open>classify_country_by_alpha2\<close> (a static table) and \<open>main\<close> (which opens the Redis
  client, calls the two and closes the client).  The two awaited collaborators, Redis
  and the HTTP service, are inputs of the model: the Redis store is a map that is passed
  in and returned, the remote service is a function from the request to what the client
  gets back.  Every call to a collaborator is also recorded, in order, in a list of events.

  A Python \<open>str\<close> is a \<open>string\<close>, one \<open>char\<close> per character.
\<close>

subsection \<open>Constants of the module\<close>

definition API_NINJAS_KEY :: string where
  "API_NINJAS_KEY = ''IW5xn5sImzBjUxP2OPf1TUwuGRlSJMsEHFJv38En''"

definition REDIS_URL :: string where
  "REDIS_URL = ''redis://localhost:6379''"

definition EU_COUNTRIES_ALPHA2 :: "string set" where
  "EU_COUNTRIES_ALPHA2 =
     {''AT'', ''BE'', ''BG'', ''HR'', ''CY'', ''CZ'', ''DK'', ''EE'', ''FI'', ''FR'', ''DE'', ''GR'',
      ''HU'', ''IE'', ''IT'', ''LV'', ''LT'', ''LU'', ''MT'', ''NL'', ''PL'', ''PT'', ''RO'', ''SK'',
      ''SI'', ''ES'', ''SE'', ''IS'', ''LI'', ''NO'', ''CH''}"

definition SERBIA_ALPHA2 :: string where
  "SERBIA_ALPHA2 = ''RS''"

subsection \<open>Python values\<close>

text \<open>
  The values the module handles at run time: what \<open>response.json()\<close> parses out of a body,
  and what \<open>get_country_with_bin\<close> returns.  Nothing in the module checks the type of the
  field \<open>iso_code2\<close>, so it can be any of these.  A \<open>dict\<close> is the list of its items, the
  keys distinct.  A \<open>float\<close> is kept as its \<open>repr\<close>, which determines it.
\<close>

datatype pyvalue =
    PyNone
  | PyBool bool
  | PyInt int
  | PyFloat string
  | PyStr string
  | PyList "pyvalue list"
  | PyDict "(string \<times> pyvalue) list"

text \<open>Truth value, as \<open>if country_code:\<close> takes it.\<close>

fun truthy :: "pyvalue \<Rightarrow> bool" where
  "truthy PyNone = False"
| "truthy (PyBool b) = b"
| "truthy (PyInt i) = (i \<noteq> 0)"
| "truthy (PyFloat r) = (r \<noteq> ''0.0'' \<and> r \<noteq> ''-0.0'')"
| "truthy (PyStr s) = (s \<noteq> [])"
| "truthy (PyList xs) = (xs \<noteq> [])"
| "truthy (PyDict d) = (d \<noteq> [])"

subsection \<open>Exceptions\<close>

text \<open>
  The exceptions that can come up inside \<open>get_country_with_bin\<close> and \<open>main\<close>.
  \<open>ClientError\<close> stands for \<open>aiohttp.ClientError\<close> and its subclasses and carries
  \<open>str(e)\<close>; \<open>TimeoutError\<close> is \<open>asyncio.TimeoutError\<close>; \<open>DataError\<close> is the one of the
  Redis client; \<open>OtherError\<close> is any exception of another class (a
  \<open>json.JSONDecodeError\<close> of \<open>response.json()\<close>, for one).
\<close>

datatype py_exception =
    ClientError string
  | TimeoutError
  | UnicodeDecodeError
  | AttributeError
  | DataError
  | TypeError
  | OtherError string

subsection \<open>Formatting an integer\<close>

text \<open>
  \<open>f"{n}"\<close> and \<open>repr(n)\<close> for an \<open>int\<close>: the decimal digits, after a minus sign when
  negative.
\<close>

definition digit_char :: "nat \<Rightarrow> char" where
  "digit_char d = ''0123456789'' ! d"

function str_nat :: "nat \<Rightarrow> string" where
  "str_nat n = (if n < 10 then [digit_char n] else str_nat (n div 10) @ [digit_char (n mod 10)])"
  by pat_completeness auto
termination
  by (relation "measure id") auto

declare str_nat.simps [simp del]

definition str_int :: "int \<Rightarrow> string" where
  "str_int i = (if i < 0 then ''-'' @ str_nat (nat (- i)) else str_nat (nat i))"

subsection \<open>The Redis store\<close>

text \<open>
  \<open>redis_client.get\<close> returns \<open>bytes\<close> or \<open>None\<close>.  A byte string is either the UTF-8
  encoding of a text, kept here as that text (\<open>b''\<close> is \<open>Utf8 []\<close>), or it is not valid
  UTF-8.  \<open>bytes.decode()\<close> gives the text back or raises \<open>UnicodeDecodeError\<close>.
\<close>

datatype bytes = Utf8 string | Malformed

fun decode :: "bytes \<Rightarrow> py_exception + string" where
  "decode (Utf8 s) = Inr s"
| "decode Malformed = Inl UnicodeDecodeError"

text \<open>Truth value of \<open>cached\<close> in \<open>if cached:\<close>: not \<open>None\<close> and of length above 0.\<close>

fun truthy_bytes :: "bytes option \<Rightarrow> bool" where
  "truthy_bytes None = False"
| "truthy_bytes (Some (Utf8 s)) = (s \<noteq> [])"
| "truthy_bytes (Some Malformed) = True"

record entry =
  val :: bytes
  ttl :: "nat option"

type_synonym redis = "string \<rightharpoonup> entry"

definition redis_get :: "redis \<Rightarrow> string \<Rightarrow> bytes option" where
  "redis_get store k = map_option val (store k)"

text \<open>
  How the Redis client encodes the value of a command, before anything is sent: a \<open>str\<close>
  as its UTF-8 bytes, an \<open>int\<close> or a \<open>float\<close> as its \<open>repr\<close>, and a \<open>bool\<close> (tested
  before \<open>int\<close>) or a value of any other type not at all: it raises \<open>DataError\<close>.
\<close>

fun encode_value :: "pyvalue \<Rightarrow> py_exception + string" where
  "encode_value (PyStr s) = Inr s"
| "encode_value (PyInt i) = Inr (str_int i)"
| "encode_value (PyFloat r) = Inr r"
| "encode_value v = Inl DataError"

text \<open>\<open>set(key, value, ex=seconds)\<close>, the value already encoded to the text \<open>v\<close>.\<close>

definition redis_set :: "redis \<Rightarrow> string \<Rightarrow> string \<Rightarrow> nat \<Rightarrow> redis" where
  "redis_set store k v ex = store(k \<mapsto> \<lparr>val = Utf8 v, ttl = Some ex\<rparr>)"

subsection \<open>The remote service\<close>

record http_request =
  url :: string
  headers :: "(string \<times> string) list"
  timeout :: nat

text \<open>
  What \<open>session.get\<close> leads to: an exception, or a response with its status and with what
  awaiting \<open>response.json()\<close> gives (read only when the status is 200).
\<close>

datatype http_result =
    Response int "py_exception + pyvalue"
  | Raised py_exception

type_synonym remote = "http_request \<Rightarrow> http_result"

text \<open>
  \<open>isinstance(data, list) and len(data) > 0\<close>, and then \<open>data[0]\<close>: the first element of a
  non-empty list, nothing for any other value.
\<close>

fun first_element :: "pyvalue \<Rightarrow> pyvalue option" where
  "first_element (PyList (x # xs)) = Some x"
| "first_element v = None"

text \<open>
  \<open>x.get(k)\<close>: on a \<open>dict\<close> the value, \<open>None\<close> for a missing key; a value of any other
  type parsed from JSON has no attribute \<open>get\<close>.
\<close>

fun get_item :: "pyvalue \<Rightarrow> string \<Rightarrow> py_exception + pyvalue" where
  "get_item (PyDict d) k = Inr (case map_of d k of None \<Rightarrow> PyNone | Some v \<Rightarrow> v)"
| "get_item v k = Inl AttributeError"

subsection \<open>Events\<close>

text \<open>
  The calls that reach a collaborator, in order.  \<open>RedisSet\<close> is a \<open>SET\<close> sent to the
  server with the encoded value; a \<open>set()\<close> whose value the client refuses sends nothing.
\<close>

datatype event =
    FromUrl string
  | RedisGet string
  | RedisSet string string nat
  | HttpGet http_request
  | Aclose

subsection \<open>get_country_with_bin\<close>

definition bin_number :: "string \<Rightarrow> string" where
  "bin_number number = take 6 number"

definition cache_key :: "string \<Rightarrow> string" where
  "cache_key number = ''bin_country:'' @ bin_number number"

definition request :: "string \<Rightarrow> http_request" where
  "request number =
     \<lparr>url = ''https://api.api-ninjas.com/v1/bin?bin='' @ bin_number number,
      headers = [(''X-Api-Key'', API_NINJAS_KEY)],
      timeout = 5\<rparr>"

text \<open>
  The body of the \<open>try\<close> statement (lines 38 to 50).  It gives the exception raised in it
  or the value returned, the store and the events.  Running off the end of the block
  leads to the \<open>return None\<close> of line 56, so that is the value given then.
\<close>

definition fetch ::
  "string \<Rightarrow> redis \<Rightarrow> remote \<Rightarrow> (py_exception + pyvalue) \<times> redis \<times> event list" where
  "fetch number store remote =
     (case remote (request number) of
        Raised e \<Rightarrow> (Inl e, store, [HttpGet (request number)])
      | Response status body \<Rightarrow>
          if status = 200 then
            (case body of
               Inl e \<Rightarrow> (Inl e, store, [HttpGet (request number)])
             | Inr data \<Rightarrow>
                 (case first_element data of
                    None \<Rightarrow> (Inr PyNone, store, [HttpGet (request number)])
                  | Some first \<Rightarrow>
                      (case get_item first ''iso_code2'' of
                         Inl e \<Rightarrow> (Inl e, store, [HttpGet (request number)])
                       | Inr country_code \<Rightarrow>
                           if truthy country_code then
                             (case encode_value country_code of
                                Inl e \<Rightarrow> (Inl e, store, [HttpGet (request number)])
                              | Inr encoded \<Rightarrow>
                                  (Inr country_code,
                                   redis_set store (cache_key number) encoded (30 * 24 * 60 * 60),
                                   [HttpGet (request number),
                                    RedisSet (cache_key number) encoded (30 * 24 * 60 * 60)]))
                           else (Inr PyNone, store, [HttpGet (request number)]))))
          else if status = 429 then (Inr (PyStr ''RATE_LIMIT''), store, [HttpGet (request number)])
          else (Inr (PyStr (''HTTP_'' @ str_int status)), store, [HttpGet (request number)]))"

text \<open>The two \<open>except\<close> clauses, in their order; any other exception goes on to the caller.\<close>

fun handle :: "py_exception \<Rightarrow> py_exception + pyvalue" where
  "handle (ClientError e) = Inr (PyStr (''CLIENT_ERROR: '' @ e))"
| "handle TimeoutError = Inr (PyStr ''TIMEOUT'')"
| "handle e = Inl e"

definition get_country_with_bin ::
  "string \<Rightarrow> redis \<Rightarrow> remote \<Rightarrow> (py_exception + pyvalue) \<times> redis \<times> event list" where
  "get_country_with_bin number store remote =
     (let cached = redis_get store (cache_key number) in
      if truthy_bytes cached then
        (map_sum id PyStr (decode (the cached)), store, [RedisGet (cache_key number)])
      else
        (case fetch number store remote of
           (Inl e, store', events) \<Rightarrow> (handle e, store', RedisGet (cache_key number) # events)
         | (Inr r, store', events) \<Rightarrow> (Inr r, store', RedisGet (cache_key number) # events)))"

subsection \<open>classify_country_by_alpha2\<close>

text \<open>The function over its declared parameter type \<open>str | None\<close>.\<close>

definition classify_country_by_alpha2 :: "string option \<Rightarrow> string" where
  "classify_country_by_alpha2 country_alpha2 =
     (case country_alpha2 of
        None \<Rightarrow> ''UNKNOWN''
      | Some c \<Rightarrow>
          if c = [] then ''UNKNOWN''
          else if c = SERBIA_ALPHA2 then ''RS''
          else if c \<in> EU_COUNTRIES_ALPHA2 then ''EU''
          else ''OTHER'')"

text \<open>
  The same function on whatever value \<open>main\<close> hands it at line 93.  A truthy value that
  is not a \<open>str\<close> differs from \<open>"RS"\<close>; the test \<open>in EU_COUNTRIES_ALPHA2\<close> then hashes it,
  which raises \<open>TypeError\<close> for a \<open>list\<close> or a \<open>dict\<close> and finds no other value in a set
  of strings.
\<close>

definition classify_value :: "pyvalue \<Rightarrow> py_exception + string" where
  "classify_value v =
     (if \<not> truthy v then Inr ''UNKNOWN''
      else case v of
             PyStr s \<Rightarrow> Inr (classify_country_by_alpha2 (Some s))
           | PyList xs \<Rightarrow> Inl TypeError
           | PyDict d \<Rightarrow> Inl TypeError
           | _ \<Rightarrow> Inr ''OTHER'')"

subsection \<open>main\<close>

record lookup =
  bin :: string
  country_alpha2 :: pyvalue
  classification :: string

text \<open>
  \<open>main\<close> has no \<open>try\<close>: an exception of \<open>get_country_with_bin\<close> leaves it at line 92,
  and one of the classifier at line 93, before \<open>aclose\<close> is reached.
\<close>

definition main ::
  "string \<Rightarrow> redis \<Rightarrow> remote \<Rightarrow> (py_exception + lookup) \<times> redis \<times> event list" where
  "main number store remote =
     (case get_country_with_bin number store remote of
        (Inl e, store', events) \<Rightarrow> (Inl e, store', FromUrl REDIS_URL # events)
      | (Inr code, store', events) \<Rightarrow>
          (case classify_value code of
             Inl e \<Rightarrow> (Inl e, store', FromUrl REDIS_URL # events)
           | Inr label \<Rightarrow>
               (Inr \<lparr>bin = number, country_alpha2 = code, classification = label\<rparr>,
                store', FromUrl REDIS_URL # events @ [Aclose])))"

subsection \<open>Notions of the specification\<close>

text \<open>
  The specification speaks of a cache miss, of a successful resolution ("HTTP 200 with a
  non-empty list body whose first element has a truthy \<open>iso_code2\<close>"), of a request that
  fails before a response is obtained or while it is read, of cache writes and of network
  requests.  These definitions follow its words; the theorems below compare them with
  what the functions above do.
\<close>

definition cache_miss :: "string \<Rightarrow> redis \<Rightarrow> bool" where
  "cache_miss number store = (\<not> truthy_bytes (redis_get store (cache_key number)))"

fun resolved_code :: "http_result \<Rightarrow> pyvalue option" where
  "resolved_code (Response status (Inr (PyList (PyDict d # rest)))) =
     (if status = 200 then
        (case map_of d ''iso_code2'' of
           None \<Rightarrow> None
         | Some v \<Rightarrow> if truthy v then Some v else None)
      else None)"
| "resolved_code r = None"




fun request_raises :: "http_result \<Rightarrow> py_exception option" where
  "request_raises (Raised e) = Some e"
| "request_raises (Response status (Inl e)) = (if status = 200 then Some e else None)"
| "request_raises (Response status (Inr data)) = None"



text \<open>A store without entries, and a service that answers every request alike.\<close>

definition no_entries :: redis where
  "no_entries = Map.empty"

definition always :: "http_result \<Rightarrow> remote" where
  "always result = (\<lambda>r. result)"

section \<open>Auxiliary facts\<close>

subsection \<open>Decimal formatting\<close>

lemma digit_cases:
  "d < 10 \<Longrightarrow> d = 0 \<or> d = 1 \<or> d = 2 \<or> d = 3 \<or> d = 4 \<or> d = 5 \<or> d = 6
     \<or> d = 7 \<or> d = 8 \<or> d = (9::nat)"
  by presburger

lemma of_char_digit: "d < 10 \<Longrightarrow> of_char (digit_char d) = (48::nat) + d"
  by (drule digit_cases) (elim disjE, simp_all add: digit_char_def)

lemma digit_char_in: "d < 10 \<Longrightarrow> digit_char d \<in> set ''0123456789''"
  by (drule digit_cases) (elim disjE, simp_all add: digit_char_def)

lemma digit_char_not_zero: "0 < d \<Longrightarrow> d < 10 \<Longrightarrow> digit_char d \<noteq> CHR ''0''"
  by (drule digit_cases) (elim disjE, simp_all add: digit_char_def)

lemma str_nat_nonempty: "str_nat n \<noteq> []"
  by (subst str_nat.simps) simp

text \<open>Reading the digits of \<open>str_nat n\<close> back gives \<open>n\<close>.\<close>

lemma str_nat_value:
  "foldl (\<lambda>acc ch. 10 * acc + (of_char ch - (48::nat))) 0 (str_nat n) = n"
proof (induction n rule: str_nat.induct)
  case (1 n)
  show ?case
  proof (cases "n < 10")
    case True
    then show ?thesis by (subst str_nat.simps) (simp add: of_char_digit)
  next
    case False
    with 1 show ?thesis by (subst str_nat.simps) (simp add: of_char_digit)
  qed
qed

lemma str_nat_digits: "set (str_nat n) \<subseteq> set ''0123456789''"
proof (induction n rule: str_nat.induct)
  case (1 n)
  show ?case
  proof (cases "n < 10")
    case True
    then show ?thesis using digit_char_in [of n] by (subst str_nat.simps) simp
  next
    case False
    with 1 digit_char_in [of "n mod 10"] show ?thesis by (subst str_nat.simps) simp
  qed
qed

lemma str_nat_leading: "0 < n \<Longrightarrow> hd (str_nat n) \<noteq> CHR ''0''"
proof (induction n rule: str_nat.induct)
  case (1 n)
  show ?case
  proof (cases "n < 10")
    case True
    with 1(2) show ?thesis using digit_char_not_zero [of n] by (subst str_nat.simps) simp
  next
    case False
    then have "0 < n div 10" by simp
    with 1(1) False have "hd (str_nat (n div 10)) \<noteq> CHR ''0''" by simp
    with False show ?thesis by (subst str_nat.simps) (simp add: str_nat_nonempty)
  qed
qed

lemma str_nat_single: "n < 10 \<Longrightarrow> length (str_nat n) = 1"
  by (subst str_nat.simps) simp

text \<open>
  \<open>str_int\<close> is the decimal numeral: an optional minus sign, then digits without a
  leading zero whose value is the absolute value.
\<close>

lemma str_int_decimal:
  "\<exists>digits. str_int i = (if i < 0 then ''-'' else []) @ digits
     \<and> digits \<noteq> [] \<and> set digits \<subseteq> set ''0123456789''
     \<and> (1 < length digits \<longrightarrow> hd digits \<noteq> CHR ''0'')
     \<and> foldl (\<lambda>acc ch. 10 * acc + (of_char ch - (48::nat))) 0 digits = nat \<bar>i\<bar>"
proof -
  let ?n = "nat \<bar>i\<bar>"
  have lead: "1 < length (str_nat ?n) \<longrightarrow> hd (str_nat ?n) \<noteq> CHR ''0''"
  proof
    assume l: "1 < length (str_nat ?n)"
    have "\<not> ?n < 10" using l str_nat_single [of ?n] by auto
    then have "0 < ?n" by simp
    then show "hd (str_nat ?n) \<noteq> CHR ''0''" by (rule str_nat_leading)
  qed
  have "str_int i = (if i < 0 then ''-'' else []) @ str_nat ?n"
    by (simp add: str_int_def)
  with lead str_nat_nonempty [of ?n] str_nat_digits [of ?n] str_nat_value [of ?n]
  show ?thesis by blast
qed

lemma str_int_length: "0 < length (str_int i)"
  by (simp add: str_int_def str_nat_nonempty)

lemma str_int_503: "str_int 503 = ''503''"
  by (simp add: str_int_def str_nat.simps digit_char_def)

lemma str_int_404: "str_int 404 = ''404''"
  by (simp add: str_int_def str_nat.simps digit_char_def)


subsection \<open>The table\<close>

lemma eu_length: "c \<in> EU_COUNTRIES_ALPHA2 \<Longrightarrow> length c = 2"
  by (auto simp: EU_COUNTRIES_ALPHA2_def)

lemma eu_card: "card EU_COUNTRIES_ALPHA2 = 31"
  by (simp add: EU_COUNTRIES_ALPHA2_def)

lemma classify_long: "2 < length s \<Longrightarrow> classify_country_by_alpha2 (Some s) = ''OTHER''"
  using eu_length [of s] by (auto simp: classify_country_by_alpha2_def SERBIA_ALPHA2_def)



subsection \<open>The ways through the resolver\<close>

lemma hit_unfold:
  "\<not> cache_miss number store \<Longrightarrow>
   get_country_with_bin number store remote =
     (map_sum id PyStr (decode (the (redis_get store (cache_key number)))), store,
      [RedisGet (cache_key number)])"
  by (simp add: get_country_with_bin_def cache_miss_def)

lemma miss_unfold:
  "cache_miss number store \<Longrightarrow>
   get_country_with_bin number store remote =
     (case fetch number store remote of
        (Inl e, store', events) \<Rightarrow> (handle e, store', RedisGet (cache_key number) # events)
      | (Inr r, store', events) \<Rightarrow> (Inr r, store', RedisGet (cache_key number) # events))"
  by (simp add: get_country_with_bin_def cache_miss_def)


lemma resolved_fetch:
  "resolved_code (remote (request number)) = Some v \<Longrightarrow>
   fetch number store remote =
     (case encode_value v of
        Inl e \<Rightarrow> (Inl e, store, [HttpGet (request number)])
      | Inr encoded \<Rightarrow>
          (Inr v, redis_set store (cache_key number) encoded 2592000,
           [HttpGet (request number), RedisSet (cache_key number) encoded 2592000]))"
  by (cases "(remote (request number))" rule: resolved_code.cases)
     (auto simp: fetch_def split: if_splits option.splits sum.splits)

lemma fetch_unresolved:
  "resolved_code (remote (request number)) = None \<Longrightarrow>
   \<exists>r. fetch number store remote = (r, store, [HttpGet (request number)])"
  by (cases "(remote (request number))" rule: resolved_code.cases)
     (auto simp: fetch_def split: if_splits option.splits sum.splits)


lemma encode_refused: "encode_value v = Inl e \<Longrightarrow> e = DataError"
  by (cases v) auto

lemma handle_sentinel: "handle e = Inr (PyStr s) \<Longrightarrow> 2 < length s"
  by (cases e) auto


lemma fetch_sentinel:
  assumes "resolved_code (remote (request number)) = None"
    and "fetch number store remote = (r, store', events)"
    and "(case r of Inl e \<Rightarrow> handle e | Inr v \<Rightarrow> Inr v) = Inr (PyStr s)"
  shows "2 < length s"
  using assms str_int_length
  by (cases "remote (request number)" rule: resolved_code.cases)
     (auto simp: fetch_def dest: handle_sentinel
           split: if_splits option.splits sum.splits list.splits)



subsection \<open>Runs used as examples\<close>

lemma example_miss: "cache_miss ''4111111111111111'' Map.empty"
  by (simp add: cache_miss_def redis_get_def)




lemma example_500:
  "fst (get_country_with_bin ''4111111111111111'' Map.empty (\<lambda>r. Response 500 (Inr PyNone)))
     = Inr (PyStr ''HTTP_500'')"
  by (simp add: get_country_with_bin_def fetch_def redis_get_def str_int_def str_nat.simps
      digit_char_def)

lemma example_503:
  "get_country_with_bin ''4111111111111111'' Map.empty (\<lambda>r. Response 503 (Inr PyNone))
     = (Inr (PyStr ''HTTP_503''), Map.empty,
        [RedisGet ''bin_country:411111'', HttpGet (request ''4111111111111111'')])"
  by (simp add: get_country_with_bin_def fetch_def redis_get_def cache_key_def bin_number_def
      str_int_503)

lemma example_404:
  "get_country_with_bin ''4111111111111111'' Map.empty (\<lambda>r. Response 404 (Inr PyNone))
     = (Inr (PyStr ''HTTP_404''), Map.empty,
        [RedisGet ''bin_country:411111'', HttpGet (request ''4111111111111111'')])"
  by (simp add: get_country_with_bin_def fetch_def redis_get_def cache_key_def bin_number_def
      str_int_404)


section \<open>The resolver\<close>

text \<open>
  Claim C1, as stated, fails: under the key \<open>bin_country:411111\<close> the store holds a
  non-empty value that is not valid UTF-8; \<open>cached.decode()\<close> raises
  \<open>UnicodeDecodeError\<close> and the call raises it instead of returning a value.
\<close>

theorem cache_hit_undecodable_counterexample:
  "(no_entries(''bin_country:411111'' \<mapsto> \<lparr>val = Malformed, ttl = None\<rparr>))
      (cache_key ''4111111111111111'') = Some \<lparr>val = Malformed, ttl = None\<rparr>
   \<and> truthy_bytes (Some (val \<lparr>val = Malformed, ttl = None\<rparr>))
   \<and> get_country_with_bin ''4111111111111111''
        (no_entries(''bin_country:411111'' \<mapsto> \<lparr>val = Malformed, ttl = None\<rparr>))
        (always (Raised TimeoutError))
      = (Inl UnicodeDecodeError,
         no_entries(''bin_country:411111'' \<mapsto> \<lparr>val = Malformed, ttl = None\<rparr>),
         [RedisGet ''bin_country:411111''])"
  by (simp add: get_country_with_bin_def redis_get_def cache_key_def bin_number_def)

text \<open>
  Claim C1, amended.  When the store holds, under the key of the input's first six
  characters, a non-empty value that is valid UTF-8, \<open>get_country_with_bin\<close> returns the
  decoded value at once: the store is returned as it was and the only event is the one
  cache read (no request and no write).  When the non-empty value is not valid UTF-8 the
  call raises the error of \<open>cached.decode()\<close>, again with no request and no write.
\<close>

theorem cache_hit_returns_cached:
  assumes "store (cache_key number) = Some e" and "truthy_bytes (Some (val e))"
  shows "(\<forall>s. val e = Utf8 s \<longrightarrow>
              get_country_with_bin number store remote =
                (Inr (PyStr s), store, [RedisGet (cache_key number)]))
         \<and> (val e = Malformed \<longrightarrow>
              get_country_with_bin number store remote =
                (Inl UnicodeDecodeError, store, [RedisGet (cache_key number)]))"
  using assms by (auto simp: get_country_with_bin_def redis_get_def)

theorem cache_hit_returns_cached_witness:
  "[''bin_country:411111'' \<mapsto> \<lparr>val = Utf8 ''DE'', ttl = Some 2592000\<rparr>] (cache_key ''4111111111111111'')
     = Some \<lparr>val = Utf8 ''DE'', ttl = Some 2592000\<rparr>
   \<and> truthy_bytes (Some (Utf8 ''DE''))
   \<and> get_country_with_bin ''4111111111111111''
        [''bin_country:411111'' \<mapsto> \<lparr>val = Utf8 ''DE'', ttl = Some 2592000\<rparr>]
        (\<lambda>r. Raised TimeoutError)
      = (Inr (PyStr ''DE''), [''bin_country:411111'' \<mapsto> \<lparr>val = Utf8 ''DE'', ttl = Some 2592000\<rparr>],
         [RedisGet ''bin_country:411111''])"
  using cache_hit_returns_cached
    [of "[''bin_country:411111'' \<mapsto> \<lparr>val = Utf8 ''DE'', ttl = Some 2592000\<rparr>]"
      "''4111111111111111''" "\<lparr>val = Utf8 ''DE'', ttl = Some 2592000\<rparr>" "\<lambda>r. Raised TimeoutError"]
  by (simp add: cache_key_def bin_number_def)




text \<open>
  Claim C3.  The key is \<open>"bin_country:"\<close> followed by exactly the first six characters of
  the input: an input of at most six characters is used whole, two inputs have the same
  key exactly when their first six characters agree, and then the whole run is the same
  for both.  Every event of a run (the cache read that opens it, the request, the write)
  is addressed by those six characters.
\<close>

theorem key_is_first_six_characters:
  "cache_key number = ''bin_country:'' @ take 6 number
   \<and> (length number \<le> 6 \<longrightarrow> cache_key number = ''bin_country:'' @ number)
   \<and> (cache_key a = cache_key b \<longleftrightarrow> take 6 a = take 6 b)
   \<and> (take 6 a = take 6 b \<longrightarrow>
        get_country_with_bin a store remote = get_country_with_bin b store remote)
   \<and> (\<forall>ev \<in> set (snd (snd (get_country_with_bin number store remote))).
        (\<forall>k. ev = RedisGet k \<longrightarrow> k = ''bin_country:'' @ take 6 number)
        \<and> (\<forall>k v t. ev = RedisSet k v t \<longrightarrow> k = ''bin_country:'' @ take 6 number)
        \<and> (\<forall>r. ev = HttpGet r \<longrightarrow>
              url r = ''https://api.api-ninjas.com/v1/bin?bin='' @ take 6 number))
   \<and> hd (snd (snd (get_country_with_bin number store remote)))
       = RedisGet (''bin_country:'' @ take 6 number)"
proof (intro conjI impI)
  assume "take 6 a = take 6 b"
  then have k: "cache_key a = cache_key b" "request a = request b"
    by (simp_all add: cache_key_def request_def bin_number_def)
  have f: "fetch a store remote = fetch b store remote"
    unfolding fetch_def k by (rule refl)
  show "get_country_with_bin a store remote = get_country_with_bin b store remote"
    unfolding get_country_with_bin_def k f by (rule refl)
next
  show "\<forall>ev \<in> set (snd (snd (get_country_with_bin number store remote))).
        (\<forall>k. ev = RedisGet k \<longrightarrow> k = ''bin_country:'' @ take 6 number)
        \<and> (\<forall>k v t. ev = RedisSet k v t \<longrightarrow> k = ''bin_country:'' @ take 6 number)
        \<and> (\<forall>r. ev = HttpGet r \<longrightarrow>
              url r = ''https://api.api-ninjas.com/v1/bin?bin='' @ take 6 number)"
  proof (cases "cache_miss number store")
    case False
    then show ?thesis by (simp add: hit_unfold cache_key_def bin_number_def)
  next
    case miss: True
    show ?thesis
    proof (cases "resolved_code (remote (request number))")
      case (Some v)
      with miss resolved_fetch [of remote number v store]
      show ?thesis
        by (cases "encode_value v")
           (simp_all add: miss_unfold cache_key_def bin_number_def request_def
              handle.simps encode_refused)
    next
      case None
      from fetch_unresolved [of remote number store, OF None] obtain r where
        "fetch number store remote = (r, store, [HttpGet (request number)])" by blast
      with miss show ?thesis
        by (cases r) (simp_all add: miss_unfold cache_key_def bin_number_def request_def)
    qed
  qed
next
  show "hd (snd (snd (get_country_with_bin number store remote)))
          = RedisGet (''bin_country:'' @ take 6 number)"
  proof (cases "cache_miss number store")
    case False
    then show ?thesis by (simp add: hit_unfold cache_key_def bin_number_def)
  next
    case True
    then show ?thesis
      by (cases "fetch number store remote")
         (auto simp: miss_unfold cache_key_def bin_number_def split: sum.splits)
  qed
qed (simp_all add: cache_key_def bin_number_def)

theorem key_is_first_six_characters_witness:
  "length ''4111'' \<le> 6 \<and> cache_key ''4111'' = ''bin_country:4111''
   \<and> take 6 ''411111119999'' = take 6 ''411111000000''
   \<and> cache_key ''411111119999'' = ''bin_country:411111''
   \<and> cache_key ''411111119999'' = cache_key ''411111000000''
   \<and> get_country_with_bin ''411111119999'' Map.empty (\<lambda>r. Response 429 (Inr PyNone))
     = get_country_with_bin ''411111000000'' Map.empty (\<lambda>r. Response 429 (Inr PyNone))"
proof -
  have l: "length ''4111'' \<le> 6" and t: "take 6 ''411111119999'' = take 6 ''411111000000''"
    by simp_all
  from key_is_first_six_characters [of "''4111''" "''411111119999''" "''411111000000''" Map.empty
      "\<lambda>r. Response 429 (Inr PyNone)"] l t
  have a: "cache_key ''4111'' = ''bin_country:'' @ ''4111''"
    and b: "cache_key ''411111119999'' = cache_key ''411111000000''"
    and c: "get_country_with_bin ''411111119999'' Map.empty (\<lambda>r. Response 429 (Inr PyNone))
     = get_country_with_bin ''411111000000'' Map.empty (\<lambda>r. Response 429 (Inr PyNone))"
    by blast+
  from key_is_first_six_characters [of "''411111119999''" "[]" "[]" Map.empty "\<lambda>r. Raised TimeoutError"]
  have d: "cache_key ''411111119999'' = ''bin_country:'' @ take 6 ''411111119999''" by blast
  from a b c d l t show ?thesis by simp
qed

text \<open>
  Claim C4.  On a cache miss answered with a status other than 200, the result is the
  string \<open>RATE_LIMIT\<close> when the status is 429 and otherwise \<open>HTTP_\<close> followed by the
  status written in decimal: a minus sign if it is negative, then digits \<open>0\<close> to \<open>9\<close>
  without a leading zero whose value is the absolute value of the status.  The store is
  unchanged, and the run consists of the cache read and the one request (no write).
\<close>

theorem non_200_status_sentinels:
  assumes "cache_miss number store" and "remote (request number) = Response status body"
    and "status \<noteq> 200"
  shows "\<exists>digits. digits \<noteq> [] \<and> set digits \<subseteq> set ''0123456789''
           \<and> (1 < length digits \<longrightarrow> hd digits \<noteq> CHR ''0'')
           \<and> foldl (\<lambda>acc ch. 10 * acc + (of_char ch - (48::nat))) 0 digits = nat \<bar>status\<bar>
           \<and> get_country_with_bin number store remote =
               (Inr (PyStr (if status = 429 then ''RATE_LIMIT''
                            else ''HTTP_'' @ (if status < 0 then ''-'' else []) @ digits)),
                store, [RedisGet (cache_key number), HttpGet (request number)])"
proof -
  from str_int_decimal [of status] obtain digits where
    d: "str_int status = (if status < 0 then ''-'' else []) @ digits"
      "digits \<noteq> []" "set digits \<subseteq> set ''0123456789''"
      "1 < length digits \<longrightarrow> hd digits \<noteq> CHR ''0''"
      "foldl (\<lambda>acc ch. 10 * acc + (of_char ch - (48::nat))) 0 digits = nat \<bar>status\<bar>"
    by blast
  have "get_country_with_bin number store remote =
          (Inr (PyStr (if status = 429 then ''RATE_LIMIT'' else ''HTTP_'' @ str_int status)),
           store, [RedisGet (cache_key number), HttpGet (request number)])"
    using assms by (simp add: miss_unfold fetch_def)
  with d have "get_country_with_bin number store remote =
               (Inr (PyStr (if status = 429 then ''RATE_LIMIT''
                            else ''HTTP_'' @ (if status < 0 then ''-'' else []) @ digits)),
                store, [RedisGet (cache_key number), HttpGet (request number)])"
    by simp
  with d(2-5) show ?thesis by blast
qed

theorem non_200_status_sentinels_witness:
  "cache_miss ''4111111111111111'' Map.empty
   \<and> (503::int) \<noteq> 200
   \<and> (\<exists>digits. digits \<noteq> [] \<and> set digits \<subseteq> set ''0123456789''
           \<and> (1 < length digits \<longrightarrow> hd digits \<noteq> CHR ''0'')
           \<and> foldl (\<lambda>acc ch. 10 * acc + (of_char ch - (48::nat))) 0 digits = 503
           \<and> get_country_with_bin ''4111111111111111'' Map.empty
               (\<lambda>r. Response 503 (Inr PyNone)) =
               (Inr (PyStr (''HTTP_'' @ digits)), Map.empty,
                [RedisGet (cache_key ''4111111111111111''), HttpGet (request ''4111111111111111'')]))
   \<and> get_country_with_bin ''4111111111111111'' Map.empty (\<lambda>r. Response 503 (Inr PyNone))
      = (Inr (PyStr ''HTTP_503''), Map.empty,
         [RedisGet ''bin_country:411111'', HttpGet (request ''4111111111111111'')])
   \<and> get_country_with_bin ''4111111111111111'' Map.empty (\<lambda>r. Response 404 (Inr PyNone))
      = (Inr (PyStr ''HTTP_404''), Map.empty,
         [RedisGet ''bin_country:411111'', HttpGet (request ''4111111111111111'')])"
proof -
  from non_200_status_sentinels [of "''4111111111111111''" Map.empty
      "\<lambda>r. Response 503 (Inr PyNone)" 503 "Inr PyNone", OF example_miss]
  have "\<exists>digits. digits \<noteq> [] \<and> set digits \<subseteq> set ''0123456789''
           \<and> (1 < length digits \<longrightarrow> hd digits \<noteq> CHR ''0'')
           \<and> foldl (\<lambda>acc ch. 10 * acc + (of_char ch - (48::nat))) 0 digits = 503
           \<and> get_country_with_bin ''4111111111111111'' Map.empty
               (\<lambda>r. Response 503 (Inr PyNone)) =
               (Inr (PyStr (''HTTP_'' @ digits)), Map.empty,
                [RedisGet (cache_key ''4111111111111111''), HttpGet (request ''4111111111111111'')])"
    by simp
  with example_miss example_503 example_404 show ?thesis by simp
qed

text \<open>
  Claim C5.  The request is sent with a timeout of 5 seconds.  On a cache miss, when the
  client raises \<open>asyncio.TimeoutError\<close> (the request did not complete in time) the result
  is the string \<open>TIMEOUT\<close>; when it raises an \<open>aiohttp.ClientError\<close> with message \<open>m\<close>
  (a transport failure) the result is \<open>CLIENT_ERROR: \<close> followed by \<open>m\<close>.  Either way the
  store is unchanged.
\<close>

theorem timeout_and_client_error_sentinels:
  assumes "cache_miss number store" and "request_raises (remote (request number)) = Some e"
  shows "timeout (request number) = 5
       \<and> (e = TimeoutError \<longrightarrow> get_country_with_bin number store remote =
            (Inr (PyStr ''TIMEOUT''), store, [RedisGet (cache_key number), HttpGet (request number)]))
       \<and> (\<forall>message. e = ClientError message \<longrightarrow> get_country_with_bin number store remote =
            (Inr (PyStr (''CLIENT_ERROR: '' @ message)), store,
             [RedisGet (cache_key number), HttpGet (request number)]))"
  using assms
  by (cases "remote (request number)" rule: request_raises.cases)
     (auto simp: miss_unfold fetch_def request_def split: if_splits)

theorem timeout_and_client_error_sentinels_witness:
  "cache_miss ''4111111111111111'' Map.empty
   \<and> request_raises (Raised TimeoutError) = Some TimeoutError
   \<and> request_raises (Raised (ClientError ''Cannot connect to host''))
       = Some (ClientError ''Cannot connect to host'')
   \<and> get_country_with_bin ''4111111111111111'' Map.empty (\<lambda>r. Raised TimeoutError)
      = (Inr (PyStr ''TIMEOUT''), Map.empty,
         [RedisGet ''bin_country:411111'', HttpGet (request ''4111111111111111'')])
   \<and> get_country_with_bin ''4111111111111111'' Map.empty
        (\<lambda>r. Raised (ClientError ''Cannot connect to host''))
      = (Inr (PyStr ''CLIENT_ERROR: Cannot connect to host''), Map.empty,
         [RedisGet ''bin_country:411111'', HttpGet (request ''4111111111111111'')])"
proof -
  from timeout_and_client_error_sentinels [of "''4111111111111111''" Map.empty
      "\<lambda>r. Raised TimeoutError" TimeoutError, OF example_miss]
    timeout_and_client_error_sentinels [of "''4111111111111111''" Map.empty
      "\<lambda>r. Raised (ClientError ''Cannot connect to host'')"
      "ClientError ''Cannot connect to host''", OF example_miss]
    example_miss
  show ?thesis by (simp add: cache_key_def bin_number_def)
qed

section \<open>The classifier\<close>

text \<open>
  Claim C6.  \<open>classify_country_by_alpha2\<close> gives one of the four labels for every input:
  \<open>UNKNOWN\<close> for \<open>None\<close> and for the empty string (the falsy values of \<open>str | None\<close>),
  \<open>RS\<close> for \<open>"RS"\<close>, \<open>EU\<close> for each member of the table, \<open>OTHER\<close> for every other
  string.  The table has 31 entries, among them Iceland, Liechtenstein, Norway and
  Switzerland, so that \<open>"DE"\<close> and \<open>"NO"\<close> are both \<open>EU\<close>.
\<close>

theorem classify_country_by_alpha2_mapping:
  "classify_country_by_alpha2 x \<in> {''UNKNOWN'', ''RS'', ''EU'', ''OTHER''}
   \<and> classify_country_by_alpha2 None = ''UNKNOWN''
   \<and> classify_country_by_alpha2 (Some []) = ''UNKNOWN''
   \<and> classify_country_by_alpha2 (Some ''RS'') = ''RS''
   \<and> (\<forall>c \<in> EU_COUNTRIES_ALPHA2. classify_country_by_alpha2 (Some c) = ''EU'')
   \<and> (\<forall>c. c \<noteq> [] \<and> c \<noteq> ''RS'' \<and> c \<notin> EU_COUNTRIES_ALPHA2
          \<longrightarrow> classify_country_by_alpha2 (Some c) = ''OTHER'')
   \<and> card EU_COUNTRIES_ALPHA2 = 31
   \<and> {''IS'', ''LI'', ''NO'', ''CH'', ''DE''} \<subseteq> EU_COUNTRIES_ALPHA2"
proof (intro conjI ballI allI impI)
  show "classify_country_by_alpha2 x \<in> {''UNKNOWN'', ''RS'', ''EU'', ''OTHER''}"
    by (simp add: classify_country_by_alpha2_def split: option.splits)
next
  fix c assume "c \<in> EU_COUNTRIES_ALPHA2"
  moreover from this have "c \<noteq> []" "c \<noteq> ''RS''" by (auto simp: EU_COUNTRIES_ALPHA2_def)
  ultimately show "classify_country_by_alpha2 (Some c) = ''EU''"
    by (simp add: classify_country_by_alpha2_def SERBIA_ALPHA2_def)
next
  show "card EU_COUNTRIES_ALPHA2 = 31" by (rule eu_card)
next
  show "{''IS'', ''LI'', ''NO'', ''CH'', ''DE''} \<subseteq> EU_COUNTRIES_ALPHA2"
    by (simp add: EU_COUNTRIES_ALPHA2_def)
qed (simp_all add: classify_country_by_alpha2_def SERBIA_ALPHA2_def)

theorem classify_country_by_alpha2_mapping_witness:
  "''DE'' \<in> EU_COUNTRIES_ALPHA2 \<and> classify_country_by_alpha2 (Some ''DE'') = ''EU''
   \<and> ''NO'' \<in> EU_COUNTRIES_ALPHA2 \<and> classify_country_by_alpha2 (Some ''NO'') = ''EU''
   \<and> ''US'' \<noteq> [] \<and> ''US'' \<noteq> ''RS'' \<and> ''US'' \<notin> EU_COUNTRIES_ALPHA2
   \<and> classify_country_by_alpha2 (Some ''US'') = ''OTHER''"
proof -
  have de: "''DE'' \<in> EU_COUNTRIES_ALPHA2" and no: "''NO'' \<in> EU_COUNTRIES_ALPHA2"
    and us: "''US'' \<noteq> [] \<and> ''US'' \<noteq> ''RS'' \<and> ''US'' \<notin> EU_COUNTRIES_ALPHA2"
    by (simp_all add: EU_COUNTRIES_ALPHA2_def)
  from classify_country_by_alpha2_mapping [of None] have
    eu: "\<forall>c \<in> EU_COUNTRIES_ALPHA2. classify_country_by_alpha2 (Some c) = ''EU''"
    and other: "\<forall>c. c \<noteq> [] \<and> c \<noteq> ''RS'' \<and> c \<notin> EU_COUNTRIES_ALPHA2
          \<longrightarrow> classify_country_by_alpha2 (Some c) = ''OTHER''"
    by blast+
  from eu de have "classify_country_by_alpha2 (Some ''DE'') = ''EU''" by (rule bspec)
  moreover from eu no have "classify_country_by_alpha2 (Some ''NO'') = ''EU''" by (rule bspec)
  moreover from other us have "classify_country_by_alpha2 (Some ''US'') = ''OTHER''" by blast
  ultimately show ?thesis using de no us by (intro conjI) (elim conjE, assumption)+
qed

text \<open>
  Claim C7.  Each sentinel of the resolver is classified \<open>OTHER\<close>: \<open>RATE_LIMIT\<close>,
  \<open>HTTP_\<close> followed by any status, \<open>TIMEOUT\<close>, and \<open>CLIENT_ERROR: \<close> followed by any
  message.  More generally, every string that the resolver returns on a cache miss without
  having resolved a country code is classified \<open>OTHER\<close>.
\<close>

theorem sentinels_classified_other:
  "classify_country_by_alpha2 (Some ''RATE_LIMIT'') = ''OTHER''
   \<and> classify_country_by_alpha2 (Some (''HTTP_'' @ str_int status)) = ''OTHER''
   \<and> classify_country_by_alpha2 (Some ''TIMEOUT'') = ''OTHER''
   \<and> classify_country_by_alpha2 (Some (''CLIENT_ERROR: '' @ message)) = ''OTHER''
   \<and> (cache_miss number store \<and> resolved_code (remote (request number)) = None
        \<and> fst (get_country_with_bin number store remote) = Inr (PyStr s)
       \<longrightarrow> classify_country_by_alpha2 (Some s) = ''OTHER'')"
proof (intro conjI impI)
  show "classify_country_by_alpha2 (Some (''HTTP_'' @ str_int status)) = ''OTHER''"
    using str_int_length [of status] by (intro classify_long) simp
next
  assume a: "cache_miss number store \<and> resolved_code (remote (request number)) = None
        \<and> fst (get_country_with_bin number store remote) = Inr (PyStr s)"
  obtain r store' events where f: "fetch number store remote = (r, store', events)"
    by (cases "fetch number store remote") auto
  with a have "(case r of Inl e \<Rightarrow> handle e | Inr v \<Rightarrow> Inr v) = Inr (PyStr s)"
    by (auto simp: miss_unfold split: sum.splits)
  with a f have "2 < length s"
    by (intro fetch_sentinel [of remote number store r store' events s]) auto
  then show "classify_country_by_alpha2 (Some s) = ''OTHER''" by (rule classify_long)
qed (simp_all add: classify_long)

theorem sentinels_classified_other_witness:
  "cache_miss ''4111111111111111'' Map.empty
   \<and> resolved_code (Response 500 (Inr PyNone)) = None
   \<and> fst (get_country_with_bin ''4111111111111111'' Map.empty (\<lambda>r. Response 500 (Inr PyNone)))
       = Inr (PyStr ''HTTP_500'')
   \<and> classify_country_by_alpha2 (Some ''HTTP_500'') = ''OTHER''"
proof -
  have r: "resolved_code (Response 500 (Inr PyNone)) = None" by simp
  from sentinels_classified_other [of 0 "[]" "''4111111111111111''" Map.empty
      "\<lambda>r. Response 500 (Inr PyNone)" "''HTTP_500''"]
    example_miss r example_500
  have "classify_country_by_alpha2 (Some ''HTTP_500'') = ''OTHER''" by blast
  with example_miss r example_500 show ?thesis by (intro conjI)
qed

section \<open>The resolver and the classifier together\<close>







section \<open>main\<close>

lemma resolver_never_closes:
  assumes "get_country_with_bin number store remote = (r, store', events)"
  shows "Aclose \<notin> set events"
proof (cases "cache_miss number store")
  case False
  with assms show ?thesis by (auto simp: hit_unfold)
next
  case miss: True
  show ?thesis
  proof (cases "resolved_code (remote (request number))")
    case None
    from fetch_unresolved [of remote number store, OF None] obtain r' where
      "fetch number store remote = (r', store, [HttpGet (request number)])" by blast
    with assms miss show ?thesis by (auto simp: miss_unfold split: sum.splits)
  next
    case (Some v)
    with assms miss resolved_fetch [of remote number v store] show ?thesis
      by (cases "encode_value v") (auto simp: miss_unfold)
  qed
qed

text \<open>
  \<open>main\<close> closes the client exactly on the runs where it returns its record; the close
  is then the last event.
\<close>

lemma main_closes_iff_returns:
  assumes "main number store remote = (r, store', events)"
  shows "(Aclose \<in> set events \<longleftrightarrow> (\<exists>v. r = Inr v))
       \<and> ((\<exists>v. r = Inr v) \<longrightarrow> last events = Aclose)
       \<and> hd events = FromUrl REDIS_URL"
  using assms resolver_never_closes [of number store remote]
  by (cases "get_country_with_bin number store remote")
     (auto simp: main_def split: sum.splits)

text \<open>
  Claim C8.  The claim is that \<open>main\<close> releases the Redis client on every exit path, also
  when the resolver raises.  Here the service answers HTTP 200 with the list \<open>["x"]\<close>,
  whose first element is not an object: \<open>data[0].get\<close> raises \<open>AttributeError\<close>, which
  neither \<open>except\<close> clause catches, \<open>main\<close> is left with that exception, and \<open>aclose\<close> is
  not among the events: the client opened by \<open>from_url\<close> stays open.
\<close>

theorem main_exception_skips_aclose:
  "main ''411111'' Map.empty (\<lambda>r. Response 200 (Inr (PyList [PyStr ''x''])))
     = (Inl AttributeError, Map.empty,
        [FromUrl ''redis://localhost:6379'', RedisGet ''bin_country:411111'',
         HttpGet \<lparr>url = ''https://api.api-ninjas.com/v1/bin?bin=411111'',
                  headers = [(''X-Api-Key'', ''IW5xn5sImzBjUxP2OPf1TUwuGRlSJMsEHFJv38En'')],
                  timeout = 5\<rparr>])
   \<and> Aclose \<notin> set (snd (snd (main ''411111'' Map.empty
                                 (\<lambda>r. Response 200 (Inr (PyList [PyStr ''x'']))))))"
  by (simp add: main_def get_country_with_bin_def fetch_def redis_get_def cache_key_def
        bin_number_def request_def REDIS_URL_def API_NINJAS_KEY_def)

end
